theory Spec2Isabelle
  imports Main "HOL-Library.Product_Lexorder"
begin

section \<open>Times of day\<close>

text \<open>
  The module works with naive \<^verbatim>\<open>datetime.time\<close> values (imported as
  \<^verbatim>\<open>time_sys\<close>): the schema validator yields them for the configuration, the clock
  yields one for \<^verbatim>\<open>datetime.now().time()\<close>. Such a value is its four components.
  Two naive times compare as the tuples (hour, minute, second, microsecond) do.
\<close>

record time_sys =
  hour :: nat
  minute :: nat
  second :: nat
  microsecond :: nat

definition time_default :: time_sys where
  \<comment> \<open>\<^verbatim>\<open>time_sys()\<close>: every component defaults to 0\<close>
  "time_default = \<lparr>hour = 0, minute = 0, second = 0, microsecond = 0\<rparr>"

definition time_key :: "time_sys \<Rightarrow> nat \<times> nat \<times> nat \<times> nat" where
  "time_key t = (hour t, minute t, second t, microsecond t)"

definition time_le :: "time_sys \<Rightarrow> time_sys \<Rightarrow> bool" where
  "time_le a b = (time_key a \<le> time_key b)"

definition time_lt :: "time_sys \<Rightarrow> time_sys \<Rightarrow> bool" where
  "time_lt a b = (time_key a < time_key b)"

definition valid_time :: "time_sys \<Rightarrow> bool" where
  \<comment> \<open>the ranges the constructor of \<^verbatim>\<open>datetime.time\<close> enforces\<close>
  "valid_time t = (hour t < 24 \<and> minute t < 60 \<and> second t < 60 \<and> microsecond t < 1000000)"

subsection \<open>Text form\<close>

fun zero_pad :: "nat \<Rightarrow> nat \<Rightarrow> string" where
  \<comment> \<open>\<^verbatim>\<open>"%0kd" % n\<close> for \<open>n < 10 ^ k\<close>\<close>
  "zero_pad 0 n = []"
| "zero_pad (Suc k) n = zero_pad k (n div 10) @ [char_of (48 + n mod 10)]"

definition isoformat :: "time_sys \<Rightarrow> string" where
  \<comment> \<open>\<^verbatim>\<open>time.isoformat()\<close> of a naive time: HH:MM:SS, and .ffffff when the
      microsecond is not 0\<close>
  "isoformat t =
     zero_pad 2 (hour t) @ '':'' @ zero_pad 2 (minute t) @ '':'' @ zero_pad 2 (second t) @
     (if microsecond t \<noteq> 0 then ''.'' @ zero_pad 6 (microsecond t) else [])"

text \<open>
  The exceptions of the restore: a KeyError carries the missing key, a ValueError the text
  that was rejected.
\<close>

datatype error = KeyError string | ValueError string

fun parse_digits :: "nat \<Rightarrow> string \<Rightarrow> nat option" where
  \<comment> \<open>the decimal value of a string of ASCII digits, from the accumulator on\<close>
  "parse_digits acc [] = Some acc"
| "parse_digits acc (c # cs) =
     (if 48 \<le> (of_char c :: nat) \<and> (of_char c :: nat) \<le> 57
      then parse_digits (10 * acc + (of_char c - 48)) cs
      else None)"

definition make_time :: "string \<Rightarrow> nat option \<Rightarrow> nat option \<Rightarrow> nat option \<Rightarrow> nat option
    \<Rightarrow> error + time_sys" where
  "make_time s h m sec us =
     (case (h, m, sec, us) of
        (Some hh, Some mm, Some ss, Some ff) \<Rightarrow>
          (let t = \<lparr>hour = hh, minute = mm, second = ss, microsecond = ff\<rparr>
           in if valid_time t then Inr t else Inl (ValueError s))
      | _ \<Rightarrow> Inl (ValueError s))"

fun fromisoformat :: "string \<Rightarrow> error + time_sys" where
  \<comment> \<open>\<^verbatim>\<open>time.fromisoformat\<close> on the two text forms that \<open>isoformat\<close> writes,
      HH:MM:SS and HH:MM:SS.ffffff. Any other text is a ValueError here; the library
      accepts some shortened and offset forms besides, which this entity never publishes,
      so the restore operations below take the parser as an argument and the theorems
      about them hold for every parser.\<close>
  "fromisoformat [h1, h2, c1, m1, m2, c2, s1, s2] =
     (if c1 = CHR '':'' \<and> c2 = CHR '':''
      then make_time [h1, h2, c1, m1, m2, c2, s1, s2]
             (parse_digits 0 [h1, h2]) (parse_digits 0 [m1, m2]) (parse_digits 0 [s1, s2]) (Some 0)
      else Inl (ValueError [h1, h2, c1, m1, m2, c2, s1, s2]))"
| "fromisoformat [h1, h2, c1, m1, m2, c2, s1, s2, d, f1, f2, f3, f4, f5, f6] =
     (if c1 = CHR '':'' \<and> c2 = CHR '':'' \<and> d = CHR ''.''
      then make_time [h1, h2, c1, m1, m2, c2, s1, s2, d, f1, f2, f3, f4, f5, f6]
             (parse_digits 0 [h1, h2]) (parse_digits 0 [m1, m2]) (parse_digits 0 [s1, s2])
             (parse_digits 0 [f1, f2, f3, f4, f5, f6])
      else Inl (ValueError [h1, h2, c1, m1, m2, c2, s1, s2, d, f1, f2, f3, f4, f5, f6]))"
| "fromisoformat s = Inl (ValueError s)"

section \<open>The entity\<close>

text \<open>
  The configuration of one entity, as the constructor receives it:
  \<^verbatim>\<open>{CONF_ID: id_, **(conf or {})}\<close>, validated by \<^verbatim>\<open>ATTR_SCHEMA\<close>. Every key
  but the id is optional; \<open>None\<close> is the absent key, which is what
  \<^verbatim>\<open>config.get(key) is None\<close> tests. The schema has turned the times into time values.
\<close>

record config_type =
  conf_id :: string
  conf_name :: "string option"
  conf_enabled :: "bool option"
  conf_start :: "time_sys option"
  conf_end :: "time_sys option"

text \<open>
  The entity. \<open>p_enabled\<close>, \<open>p_start\<close> and \<open>p_end\<close> are the private attributes
  \<^verbatim>\<open>_enabled\<close>, \<^verbatim>\<open>_start\<close> and \<^verbatim>\<open>_end\<close>.
\<close>

record timeslot =
  config :: config_type
  editable :: bool
  attr_name :: "string option"
  attr_unique_id :: string
  entity_id :: string
  p_enabled :: bool
  p_start :: time_sys
  p_end :: time_sys

definition DOMAIN :: string where
  "DOMAIN = ''timeslot''"

definition STATE_ON :: string where
  "STATE_ON = ''on''"

definition STATE_OFF :: string where
  "STATE_OFF = ''off''"

definition init :: "config_type \<Rightarrow> timeslot" where
  \<comment> \<open>\<^verbatim>\<open>Timeslot.__init__\<close>\<close>
  "init cfg =
     \<lparr>config = cfg,
      editable = True,
      attr_name = conf_name cfg,
      attr_unique_id = conf_id cfg,
      entity_id = DOMAIN @ ''.'' @ conf_id cfg,
      p_enabled = (case conf_enabled cfg of None \<Rightarrow> False | Some b \<Rightarrow> b),
      p_start = (case conf_start cfg of None \<Rightarrow> time_default | Some t \<Rightarrow> t),
      p_end = (case conf_end cfg of None \<Rightarrow> time_default | Some t \<Rightarrow> t)\<rparr>"

text \<open>
  The attributes of a published state. The same shape is read back at restart, where a
  key may be missing: \<open>None\<close> is the missing key.
\<close>

record state_attributes =
  attr_editable :: "bool option"
  attr_enabled :: "bool option"
  attr_start :: "string option"
  attr_end :: "string option"

record ha_state =
  state_str :: string
  attributes :: state_attributes

definition extra_state_attributes :: "timeslot \<Rightarrow> state_attributes" where
  \<comment> \<open>a time value is always truthy, so both times are written\<close>
  "extra_state_attributes self =
     \<lparr>attr_editable = Some (editable self),
      attr_enabled = Some (p_enabled self),
      attr_start = Some (isoformat (p_start self)),
      attr_end = Some (isoformat (p_end self))\<rparr>"

definition is_on :: "time_sys \<Rightarrow> timeslot \<Rightarrow> bool" where
  \<comment> \<open>the first argument is the clock's \<^verbatim>\<open>datetime.now().time()\<close>\<close>
  "is_on now self =
     (if time_le (p_start self) (p_end self)
      then p_enabled self \<and> time_le (p_start self) now \<and> time_lt now (p_end self)
      else p_enabled self \<and> (time_le (p_start self) now \<or> time_lt now (p_end self)))"

definition state :: "time_sys \<Rightarrow> timeslot \<Rightarrow> string" where
  "state now self = (if is_on now self then STATE_ON else STATE_OFF)"

definition turn_on :: "timeslot \<Rightarrow> timeslot" where
  "turn_on self = self\<lparr>p_enabled := True\<rparr>"

definition turn_off :: "timeslot \<Rightarrow> timeslot" where
  "turn_off self = self\<lparr>p_enabled := False\<rparr>"

text \<open>
  The module registers the service \<^verbatim>\<open>SERVICE_TOGGLE\<close> on \<^verbatim>\<open>async_toggle\<close> and
  does not define it: the class inherits it from the host's \<^verbatim>\<open>ToggleEntity\<close>, whose
  body is \<^verbatim>\<open>if self.is_on: turn_off() else: turn_on()\<close>. It reads the \<open>is_on\<close> that
  this class overrides.
\<close>

definition toggle :: "time_sys \<Rightarrow> timeslot \<Rightarrow> timeslot" where
  "toggle now self = (if is_on now self then turn_off self else turn_on self)"

text \<open>
  The host's \<^verbatim>\<open>async_write_ha_state\<close> hands the entity's current state and attributes
  to the publish sink; the sink is the list of what was written, oldest first.
\<close>

definition async_write_ha_state :: "time_sys \<Rightarrow> timeslot \<Rightarrow> ha_state list \<Rightarrow> ha_state list" where
  "async_write_ha_state now self sink =
     sink @ [\<lparr>state_str = state now self, attributes = extra_state_attributes self\<rparr>]"

definition async_set_parameters ::
    "string option \<Rightarrow> bool option \<Rightarrow> time_sys option \<Rightarrow> time_sys option \<Rightarrow>
     time_sys \<Rightarrow> timeslot \<times> ha_state list \<Rightarrow> timeslot \<times> ha_state list" where
  "async_set_parameters name en st fin now w =
     (let self0 = fst w;
          self1 = (case name of None \<Rightarrow> self0 | Some n \<Rightarrow> self0\<lparr>attr_name := Some n\<rparr>);
          self2 = (case en of None \<Rightarrow> self1 | Some b \<Rightarrow> self1\<lparr>p_enabled := b\<rparr>);
          self3 = (case st of None \<Rightarrow> self2 | Some t \<Rightarrow> self2\<lparr>p_start := t\<rparr>);
          self4 = (case fin of None \<Rightarrow> self3 | Some t \<Rightarrow> self3\<lparr>p_end := t\<rparr>)
      in (self4, async_write_ha_state now self4 (snd w)))"

definition async_update :: "time_sys \<Rightarrow> timeslot \<times> ha_state list \<Rightarrow> timeslot \<times> ha_state list" where
  \<comment> \<open>\<^verbatim>\<open>_async_update\<close>, the tick\<close>
  "async_update now w = (fst w, async_write_ha_state now (fst w) (snd w))"

section \<open>Restoring at start\<close>

text \<open>
  \<^verbatim>\<open>async_added_to_hass\<close> changes the entity in place, one field after the other, and an
  exception leaves the fields written so far: the result is the entity as it is left and
  the exception raised, if any. The three guarded assignments are the three steps below;
  \<^verbatim>\<open>attributes[key]\<close> raises KeyError on a missing key, and the parser raises on text
  it does not accept. The call of the base class before them and the registration of the
  one-minute tick after them are calls into the host and touch no field.
\<close>

type_synonym parser = "string \<Rightarrow> error + time_sys"

type_synonym outcome = "timeslot \<times> error option"

definition ATTR_ENABLED :: string where
  "ATTR_ENABLED = ''enabled''"

definition ATTR_START :: string where
  "ATTR_START = ''start''"

definition ATTR_END :: string where
  "ATTR_END = ''end''"

definition restore_enabled :: "state_attributes \<Rightarrow> timeslot \<Rightarrow> outcome" where
  "restore_enabled attrs self =
     (if conf_enabled (config self) = None
      then (case attr_enabled attrs of
              None \<Rightarrow> (self, Some (KeyError ATTR_ENABLED))
            | Some b \<Rightarrow> (self\<lparr>p_enabled := b\<rparr>, None))
      else (self, None))"

definition restore_start :: "parser \<Rightarrow> state_attributes \<Rightarrow> timeslot \<Rightarrow> outcome" where
  "restore_start parse attrs self =
     (if conf_start (config self) = None
      then (case attr_start attrs of
              None \<Rightarrow> (self, Some (KeyError ATTR_START))
            | Some s \<Rightarrow>
                (case parse s of
                   Inl e \<Rightarrow> (self, Some e)
                 | Inr t \<Rightarrow> (self\<lparr>p_start := t\<rparr>, None)))
      else (self, None))"

definition restore_end :: "parser \<Rightarrow> state_attributes \<Rightarrow> timeslot \<Rightarrow> outcome" where
  "restore_end parse attrs self =
     (if conf_end (config self) = None
      then (case attr_end attrs of
              None \<Rightarrow> (self, Some (KeyError ATTR_END))
            | Some s \<Rightarrow>
                (case parse s of
                   Inl e \<Rightarrow> (self, Some e)
                 | Inr t \<Rightarrow> (self\<lparr>p_end := t\<rparr>, None)))
      else (self, None))"

definition and_then :: "outcome \<Rightarrow> (timeslot \<Rightarrow> outcome) \<Rightarrow> outcome" where
  \<comment> \<open>the next statement runs unless an exception is under way\<close>
  "and_then r f = (case snd r of None \<Rightarrow> f (fst r) | Some e \<Rightarrow> r)"

definition async_added_to_hass :: "parser \<Rightarrow> ha_state option \<Rightarrow> timeslot \<Rightarrow> outcome" where
  "async_added_to_hass parse old_state self =
     (case old_state of
        None \<Rightarrow> (self, None)
      | Some old \<Rightarrow>
          and_then
            (and_then (restore_enabled (attributes old) self)
               (restore_start parse (attributes old)))
            (restore_end parse (attributes old)))"

section \<open>Sample entities and snapshots\<close>

definition hms :: "nat \<Rightarrow> nat \<Rightarrow> nat \<Rightarrow> time_sys" where
  \<comment> \<open>\<^verbatim>\<open>time_sys(h, m, s)\<close>\<close>
  "hms h m s = \<lparr>hour = h, minute = m, second = s, microsecond = 0\<rparr>"

definition slot_config :: "string \<Rightarrow> bool option \<Rightarrow> time_sys option \<Rightarrow> time_sys option \<Rightarrow> config_type" where
  "slot_config i en st fin =
     \<lparr>conf_id = i, conf_name = None, conf_enabled = en, conf_start = st, conf_end = fin\<rparr>"

definition day_slot :: timeslot where
  "day_slot = init (slot_config ''day'' (Some True) (Some (hms 8 0 0)) (Some (hms 17 0 0)))"

definition night_slot :: timeslot where
  "night_slot = init (slot_config ''night'' (Some True) (Some (hms 22 0 0)) (Some (hms 6 0 0)))"

definition noon_slot :: timeslot where
  "noon_slot = init (slot_config ''noon'' (Some True) (Some (hms 12 0 0)) (Some (hms 12 0 0)))"

definition snapshot :: "bool option \<Rightarrow> string option \<Rightarrow> string option \<Rightarrow> ha_state" where
  "snapshot en st fin =
     \<lparr>state_str = STATE_OFF,
      attributes = \<lparr>attr_editable = Some True, attr_enabled = en, attr_start = st, attr_end = fin\<rparr>\<rparr>"

definition bare_config :: config_type where
  "bare_config = slot_config ''slot'' None None None"

definition half_config :: config_type where
  "half_config = slot_config ''slot'' (Some True) None None"

section \<open>Order of times\<close>

lemma time_lt_iff_not_le: "time_lt a b = (\<not> time_le b a)"
  by (simp add: time_lt_def time_le_def not_le)

lemma time_le_refl: "time_le a a"
  by (simp add: time_le_def)

lemma time_le_hms:
  "time_le (hms h m s) (hms h' m' s') = (h < h' \<or> h = h' \<and> (m < m' \<or> m = m' \<and> s \<le> s'))"
  by (auto simp add: time_le_def time_key_def hms_def)

lemma time_lt_hms:
  "time_lt (hms h m s) (hms h' m' s') = (h < h' \<or> h = h' \<and> (m < m' \<or> m = m' \<and> s < s'))"
  by (auto simp add: time_lt_def time_key_def hms_def)

lemma sample_slots:
  "p_enabled day_slot" "p_start day_slot = hms 8 0 0" "p_end day_slot = hms 17 0 0"
  "p_enabled night_slot" "p_start night_slot = hms 22 0 0" "p_end night_slot = hms 6 0 0"
  "p_enabled noon_slot" "p_start noon_slot = hms 12 0 0" "p_end noon_slot = hms 12 0 0"
  by (simp_all add: day_slot_def night_slot_def noon_slot_def init_def slot_config_def)

lemma sample_configs:
  "conf_enabled bare_config = None" "conf_start bare_config = None" "conf_end bare_config = None"
  "conf_enabled half_config = Some True" "conf_start half_config = None"
  "conf_end half_config = None"
  by (simp_all add: bare_config_def half_config_def slot_config_def)

lemma snapshot_attributes:
  "attr_enabled (attributes (snapshot en st fin)) = en"
  "attr_start (attributes (snapshot en st fin)) = st"
  "attr_end (attributes (snapshot en st fin)) = fin"
  by (simp_all add: snapshot_def)

lemma fromisoformat_samples:
  "fromisoformat ''22:00:00'' = Inr (hms 22 0 0)"
  "fromisoformat ''06:00:00'' = Inr (hms 6 0 0)"
  "fromisoformat ''25:00:00'' = Inl (ValueError ''25:00:00'')"
  "fromisoformat ''noon'' = Inl (ValueError ''noon'')"
  "fromisoformat ''6 am'' = Inl (ValueError ''6 am'')"
  by (simp_all add: make_time_def valid_time_def hms_def)

section \<open>The text form round trip\<close>

text \<open>
  What \<open>isoformat\<close> writes for a time within the ranges, \<open>fromisoformat\<close> reads back.
\<close>

lemma parse_digits_snoc:
  "parse_digits acc (xs @ [c]) =
     (case parse_digits acc xs of
        None \<Rightarrow> None
      | Some v \<Rightarrow>
          if 48 \<le> (of_char c :: nat) \<and> (of_char c :: nat) \<le> 57
          then Some (10 * v + (of_char c - 48)) else None)"
  by (induction xs arbitrary: acc) simp_all

lemma of_char_digit: "(of_char (char_of (48 + n mod 10 :: nat)) :: nat) = 48 + n mod 10"
proof -
  have "48 + n mod 10 < (256::nat)"
    by arith
  then show ?thesis
    by simp
qed

lemma parse_zero_pad:
  "n < 10 ^ k \<Longrightarrow> parse_digits acc (zero_pad k n) = Some (acc * 10 ^ k + n)"
proof (induction k arbitrary: n)
  case 0
  then show ?case by simp
next
  case (Suc k)
  define p where "p = acc * 10 ^ k"
  from Suc.prems have "n div 10 < 10 ^ k"
    by (simp add: less_mult_imp_div_less mult.commute)
  then have ih: "parse_digits acc (zero_pad k (n div 10)) = Some (p + n div 10)"
    unfolding p_def by (rule Suc.IH)
  have "acc * 10 ^ Suc k = 10 * p"
    by (simp add: p_def)
  moreover have "10 * (n div 10) + n mod 10 = n"
    by simp
  ultimately have val: "10 * (p + n div 10) + n mod 10 = acc * 10 ^ Suc k + n"
    by arith
  have "parse_digits acc (zero_pad (Suc k) n) = Some (10 * (p + n div 10) + n mod 10)"
    by (simp only: zero_pad.simps parse_digits_snoc ih of_char_digit option.case)
      simp
  with val show ?case by simp
qed


lemma zero_pad_2: "zero_pad 2 n = [char_of (48 + n div 10 mod 10), char_of (48 + n mod 10)]"
  by (simp add: numeral_2_eq_2)

lemma zero_pad_6:
  "\<exists>f1 f2 f3 f4 f5 f6. zero_pad 6 n = [f1, f2, f3, f4, f5, f6]"
proof -
  have six: "(6::nat) = Suc (Suc (Suc (Suc (Suc (Suc 0)))))"
    by simp
  show ?thesis
    unfolding six by simp
qed

lemma make_time_valid:
  "valid_time t \<Longrightarrow>
     make_time s (Some (hour t)) (Some (minute t)) (Some (second t)) (Some (microsecond t)) = Inr t"
  by (simp add: make_time_def Let_def valid_time_def)

lemma fromisoformat_isoformat:
  assumes "valid_time t"
  shows "fromisoformat (isoformat t) = Inr t"
proof -
  obtain h1 h2 where h: "zero_pad 2 (hour t) = [h1, h2]"
    by (simp add: zero_pad_2)
  obtain m1 m2 where m: "zero_pad 2 (minute t) = [m1, m2]"
    by (simp add: zero_pad_2)
  obtain s1 s2 where s: "zero_pad 2 (second t) = [s1, s2]"
    by (simp add: zero_pad_2)
  obtain f1 f2 f3 f4 f5 f6 where f: "zero_pad 6 (microsecond t) = [f1, f2, f3, f4, f5, f6]"
    using zero_pad_6 by blast
  from assms have in_range: "hour t < 10 ^ 2" "minute t < 10 ^ 2" "second t < 10 ^ 2"
      "microsecond t < 10 ^ 6"
    by (simp_all add: valid_time_def)
  have ph: "parse_digits 0 [h1, h2] = Some (hour t)"
    using parse_zero_pad [OF in_range(1), of 0] by (simp only: h) simp
  have pm: "parse_digits 0 [m1, m2] = Some (minute t)"
    using parse_zero_pad [OF in_range(2), of 0] by (simp only: m) simp
  have ps: "parse_digits 0 [s1, s2] = Some (second t)"
    using parse_zero_pad [OF in_range(3), of 0] by (simp only: s) simp
  have pf: "parse_digits 0 [f1, f2, f3, f4, f5, f6] = Some (microsecond t)"
    using parse_zero_pad [OF in_range(4), of 0] by (simp only: f) simp
  show ?thesis
  proof (cases "microsecond t = 0")
    case True
    then have iso: "isoformat t = [h1, h2, CHR '':'', m1, m2, CHR '':'', s1, s2]"
      by (simp add: isoformat_def h m s)
    have "make_time (isoformat t) (Some (hour t)) (Some (minute t)) (Some (second t)) (Some 0) =
        Inr t"
      using make_time_valid [OF assms, of "isoformat t"] True by simp
    then show ?thesis
      by (simp only: iso fromisoformat.simps(1) ph pm ps) simp
  next
    case False
    then have iso: "isoformat t =
        [h1, h2, CHR '':'', m1, m2, CHR '':'', s1, s2, CHR ''.'', f1, f2, f3, f4, f5, f6]"
      by (simp add: isoformat_def h m s f)
    have "make_time (isoformat t) (Some (hour t)) (Some (minute t)) (Some (second t))
        (Some (microsecond t)) = Inr t"
      by (rule make_time_valid [OF assms])
    then show ?thesis
      by (simp only: iso fromisoformat.simps(2) ph pm ps pf) simp
  qed
qed

section \<open>The membership test\<close>

text \<open>
  C1. \<open>is_on\<close> is the reference test: false whenever the entity is not enabled; when
  start \<open>\<le>\<close> end, true exactly when enabled and start \<open>\<le>\<close> now \<open><\<close> end; when start \<open>>\<close> end,
  true exactly when enabled and (now \<open>\<ge>\<close> start or now \<open><\<close> end); for every start, end and
  now.
\<close>

theorem is_on_reference:
  "(\<not> p_enabled self \<longrightarrow> \<not> is_on now self) \<and>
   (time_le (p_start self) (p_end self) \<longrightarrow>
      is_on now self = (p_enabled self \<and> time_le (p_start self) now \<and> time_lt now (p_end self))) \<and>
   (time_lt (p_end self) (p_start self) \<longrightarrow>
      is_on now self = (p_enabled self \<and> (time_le (p_start self) now \<or> time_lt now (p_end self))))"
  by (simp add: is_on_def time_lt_iff_not_le)

theorem is_on_reference_witness:
  "time_le (p_start day_slot) (p_end day_slot) \<and>
   is_on (hms 8 0 0) day_slot \<and> \<not> is_on (hms 17 0 0) day_slot \<and>
   time_lt (p_end night_slot) (p_start night_slot) \<and>
   is_on (hms 23 30 0) night_slot \<and> \<not> is_on (hms 7 0 0) night_slot \<and>
   \<not> p_enabled (turn_off night_slot) \<and> \<not> is_on (hms 23 30 0) (turn_off night_slot)"
  using is_on_reference [of day_slot "hms 8 0 0"] is_on_reference [of day_slot "hms 17 0 0"]
    is_on_reference [of night_slot "hms 23 30 0"] is_on_reference [of night_slot "hms 7 0 0"]
    is_on_reference [of "turn_off night_slot" "hms 23 30 0"]
  by (simp add: sample_slots time_le_hms time_lt_hms turn_off_def)

text \<open>
  C2. For every time of day t and every now, an enabled entity with start = end = t is
  not on.
\<close>

theorem is_on_equal_bounds:
  "p_enabled self \<and> p_start self = t \<and> p_end self = t \<longrightarrow> \<not> is_on now self"
  by (auto simp add: is_on_def time_lt_def time_le_def)

theorem is_on_equal_bounds_witness:
  "p_enabled noon_slot \<and> p_start noon_slot = hms 12 0 0 \<and> p_end noon_slot = hms 12 0 0 \<and>
   \<not> is_on (hms 12 0 0) noon_slot \<and> \<not> is_on (hms 3 0 0) noon_slot"
  using is_on_equal_bounds [of noon_slot "hms 12 0 0" "hms 12 0 0"]
    is_on_equal_bounds [of noon_slot "hms 12 0 0" "hms 3 0 0"]
  by (simp add: sample_slots)

section \<open>Turning on and off\<close>

text \<open>
  C8. \<open>turn_on\<close> sets the enabled field to true and \<open>turn_off\<close> sets it to false; the
  name, start, end, id and editable flag (and the configuration and entity id) of every
  entity are as before.
\<close>

theorem turn_on_off_frame:
  "p_enabled (turn_on self) = True \<and> p_enabled (turn_off self) = False \<and>
   attr_name (turn_on self) = attr_name self \<and> attr_name (turn_off self) = attr_name self \<and>
   p_start (turn_on self) = p_start self \<and> p_start (turn_off self) = p_start self \<and>
   p_end (turn_on self) = p_end self \<and> p_end (turn_off self) = p_end self \<and>
   attr_unique_id (turn_on self) = attr_unique_id self \<and>
   attr_unique_id (turn_off self) = attr_unique_id self \<and>
   entity_id (turn_on self) = entity_id self \<and> entity_id (turn_off self) = entity_id self \<and>
   editable (turn_on self) = editable self \<and> editable (turn_off self) = editable self \<and>
   config (turn_on self) = config self \<and> config (turn_off self) = config self"
  by (simp add: turn_on_def turn_off_def)

text \<open>
  C10. \<open>turn_on\<close> and \<open>turn_off\<close> are idempotent on every entity; after \<open>turn_on\<close> the
  entity is enabled and after \<open>turn_off\<close> it is not, whatever it was before.
\<close>

theorem turn_on_off_idempotent:
  "turn_on (turn_on self) = turn_on self \<and> turn_off (turn_off self) = turn_off self \<and>
   p_enabled (turn_on self) \<and> \<not> p_enabled (turn_off self)"
  by (simp add: turn_on_def turn_off_def)

section \<open>Toggle\<close>

lemma toggle_enabled: "p_enabled (toggle now self) = (\<not> is_on now self)"
  by (simp add: toggle_def turn_on_def turn_off_def)

lemma toggle_negates_iff:
  "(p_enabled (toggle now self) = (\<not> p_enabled self)) = (p_enabled self = is_on now self)"
  by (auto simp add: toggle_enabled)

text \<open>
  C4. The claim is that \<open>toggle\<close> negates the enabled field in every state, so that two
  toggles restore it. The inherited toggle decides on \<open>is_on\<close>: outside its window (the
  day slot at 20:00) an enabled entity is off, so toggle turns it on and it stays
  enabled; a disabled one is enabled by the first toggle and stays so at the second.
\<close>

theorem toggle_outside_window:
  "p_enabled day_slot \<and> \<not> is_on (hms 20 0 0) day_slot \<and>
   p_enabled (toggle (hms 20 0 0) day_slot) \<and>
   \<not> p_enabled (turn_off day_slot) \<and>
   p_enabled (toggle (hms 20 0 0) (toggle (hms 20 0 0) (turn_off day_slot)))"
  by (simp add: toggle_def is_on_def turn_on_def turn_off_def sample_slots time_le_hms
      time_lt_hms)

section \<open>Setting parameters\<close>

text \<open>
  C6. \<open>async_set_parameters\<close> overwrites exactly the fields whose argument is given
  and leaves the others as they are, and writes the state to the sink exactly once,
  also when no argument is given and when the given values are the current ones.
\<close>

theorem set_parameters_effect:
  "attr_name (fst (async_set_parameters name en st fin now (self, sink))) =
     (case name of None \<Rightarrow> attr_name self | Some n \<Rightarrow> Some n) \<and>
   p_enabled (fst (async_set_parameters name en st fin now (self, sink))) =
     (case en of None \<Rightarrow> p_enabled self | Some b \<Rightarrow> b) \<and>
   p_start (fst (async_set_parameters name en st fin now (self, sink))) =
     (case st of None \<Rightarrow> p_start self | Some t \<Rightarrow> t) \<and>
   p_end (fst (async_set_parameters name en st fin now (self, sink))) =
     (case fin of None \<Rightarrow> p_end self | Some t \<Rightarrow> t) \<and>
   config (fst (async_set_parameters name en st fin now (self, sink))) = config self \<and>
   editable (fst (async_set_parameters name en st fin now (self, sink))) = editable self \<and>
   attr_unique_id (fst (async_set_parameters name en st fin now (self, sink))) =
     attr_unique_id self \<and>
   entity_id (fst (async_set_parameters name en st fin now (self, sink))) = entity_id self \<and>
   snd (async_set_parameters name en st fin now (self, sink)) =
     sink @ [\<lparr>state_str = state now (fst (async_set_parameters name en st fin now (self, sink))),
              attributes =
                extra_state_attributes (fst (async_set_parameters name en st fin now (self, sink)))\<rparr>] \<and>
   length (snd (async_set_parameters name en st fin now (self, sink))) = Suc (length sink) \<and>
   async_set_parameters None None None None now (self, sink) =
     (self, sink @ [\<lparr>state_str = state now self, attributes = extra_state_attributes self\<rparr>])"
  by (simp add: async_set_parameters_def async_write_ha_state_def Let_def split: option.splits)

section \<open>Restoring: the three steps\<close>

lemma restore_step_config:
  "config (fst (restore_enabled a self)) = config self"
  "config (fst (restore_start parse a self)) = config self"
  "config (fst (restore_end parse a self)) = config self"
  by (simp_all add: restore_enabled_def restore_start_def restore_end_def
      split: option.splits sum.splits)

lemma restore_step_frame:
  "p_start (fst (restore_enabled a self)) = p_start self"
  "p_end (fst (restore_enabled a self)) = p_end self"
  "p_enabled (fst (restore_start parse a self)) = p_enabled self"
  "p_end (fst (restore_start parse a self)) = p_end self"
  "p_enabled (fst (restore_end parse a self)) = p_enabled self"
  "p_start (fst (restore_end parse a self)) = p_start self"
  by (simp_all add: restore_enabled_def restore_start_def restore_end_def
      split: option.splits sum.splits)

lemma restore_step_raise:
  "snd (restore_enabled a self) = Some e \<Longrightarrow> fst (restore_enabled a self) = self"
  "snd (restore_start parse a self) = Some e \<Longrightarrow> fst (restore_start parse a self) = self"
  "snd (restore_end parse a self) = Some e \<Longrightarrow> fst (restore_end parse a self) = self"
  by (simp_all add: restore_enabled_def restore_start_def restore_end_def
      split: option.splits sum.splits if_splits)

lemma restore_enabled_again:
  assumes "config s' = config s"
    and "snd (restore_enabled a s) = None \<longrightarrow> p_enabled s' = p_enabled (fst (restore_enabled a s))"
  shows "restore_enabled a s' = (s', snd (restore_enabled a s))"
  using assms by (auto simp add: restore_enabled_def split: option.splits if_splits)

lemma restore_start_again:
  assumes "config s' = config s"
    and "snd (restore_start parse a s) = None \<longrightarrow>
           p_start s' = p_start (fst (restore_start parse a s))"
  shows "restore_start parse a s' = (s', snd (restore_start parse a s))"
  using assms by (auto simp add: restore_start_def split: option.splits sum.splits if_splits)

lemma restore_end_again:
  assumes "config s' = config s"
    and "snd (restore_end parse a s) = None \<longrightarrow> p_end s' = p_end (fst (restore_end parse a s))"
  shows "restore_end parse a s' = (s', snd (restore_end parse a s))"
  using assms by (auto simp add: restore_end_def split: option.splits sum.splits if_splits)

lemma and_then_simps:
  "and_then (s, None) f = f s"
  "and_then (s, Some e) f = (s, Some e)"
  by (simp_all add: and_then_def)


lemma run_Some:
  "async_added_to_hass parse (Some old) self =
     and_then
       (and_then (restore_enabled (attributes old) self) (restore_start parse (attributes old)))
       (restore_end parse (attributes old))"
  by (simp add: async_added_to_hass_def)

lemma and_then_None: "snd r = None \<Longrightarrow> and_then r f = f (fst r)"
  by (simp add: and_then_def)

lemma and_then_Some: "snd r = Some e \<Longrightarrow> and_then r f = r"
  by (simp add: and_then_def)

lemma and_then_ok: "snd (and_then r f) = None \<Longrightarrow> snd r = None \<and> snd (f (fst r)) = None"
  by (cases "snd r") (simp_all add: and_then_def)

lemma restore_enabled_total:
  "(conf_enabled (config s) = None \<longrightarrow> attr_enabled a \<noteq> None) \<Longrightarrow> snd (restore_enabled a s) = None"
  by (auto simp add: restore_enabled_def split: option.splits)

lemma restore_start_total:
  "(conf_start (config s) = None \<longrightarrow> (\<exists>x t. attr_start a = Some x \<and> parse x = Inr t))
     \<Longrightarrow> snd (restore_start parse a s) = None"
  by (auto simp add: restore_start_def split: option.splits)

lemma restore_end_total:
  "(conf_end (config s) = None \<longrightarrow> (\<exists>x t. attr_end a = Some x \<and> parse x = Inr t))
     \<Longrightarrow> snd (restore_end parse a s) = None"
  by (auto simp add: restore_end_def split: option.splits)

lemma restore_enabled_ok:
  assumes "snd (restore_enabled a s) = None"
  shows "case conf_enabled (config s) of
           None \<Rightarrow> attr_enabled a = Some (p_enabled (fst (restore_enabled a s)))
         | Some b \<Rightarrow> p_enabled (fst (restore_enabled a s)) = p_enabled s"
  using assms by (auto simp add: restore_enabled_def split: option.splits if_splits)

lemma restore_start_ok:
  assumes "snd (restore_start parse a s) = None"
  shows "case conf_start (config s) of
           None \<Rightarrow> (\<exists>x. attr_start a = Some x \<and> parse x = Inr (p_start (fst (restore_start parse a s))))
         | Some t \<Rightarrow> p_start (fst (restore_start parse a s)) = p_start s"
  using assms by (auto simp add: restore_start_def split: option.splits sum.splits if_splits)

lemma restore_end_ok:
  assumes "snd (restore_end parse a s) = None"
  shows "case conf_end (config s) of
           None \<Rightarrow> (\<exists>x. attr_end a = Some x \<and> parse x = Inr (p_end (fst (restore_end parse a s))))
         | Some t \<Rightarrow> p_end (fst (restore_end parse a s)) = p_end s"
  using assms by (auto simp add: restore_end_def split: option.splits sum.splits if_splits)

lemma restore_enabled_missing:
  "conf_enabled (config s) = None \<Longrightarrow> attr_enabled a = None \<Longrightarrow>
     restore_enabled a s = (s, Some (KeyError ATTR_ENABLED))"
  by (simp add: restore_enabled_def)

lemma restore_start_missing:
  "conf_start (config s) = None \<Longrightarrow> attr_start a = None \<Longrightarrow>
     restore_start parse a s = (s, Some (KeyError ATTR_START))"
  by (simp add: restore_start_def)

lemma restore_end_missing:
  "conf_end (config s) = None \<Longrightarrow> attr_end a = None \<Longrightarrow>
     restore_end parse a s = (s, Some (KeyError ATTR_END))"
  by (simp add: restore_end_def)

lemma restore_start_malformed:
  "conf_start (config s) = None \<Longrightarrow> attr_start a = Some x \<Longrightarrow> parse x = Inl e \<Longrightarrow>
     restore_start parse a s = (s, Some e)"
  by (simp add: restore_start_def)

lemma restore_end_malformed:
  "conf_end (config s) = None \<Longrightarrow> attr_end a = Some x \<Longrightarrow> parse x = Inl e \<Longrightarrow>
     restore_end parse a s = (s, Some e)"
  by (simp add: restore_end_def)

lemma restore_configured:
  "conf_start (config s) \<noteq> None \<Longrightarrow> restore_start parse a s = (s, None)"
  "conf_end (config s) \<noteq> None \<Longrightarrow> restore_end parse a s = (s, None)"
  by (auto simp add: restore_start_def restore_end_def)

text \<open>The run of the three steps, by how far it gets.\<close>

lemma run_stop_enabled:
  "snd (restore_enabled (attributes old) self) = Some e \<Longrightarrow>
     async_added_to_hass parse (Some old) self = restore_enabled (attributes old) self"
  by (simp add: run_Some and_then_Some)

lemma run_stop_start:
  "snd (restore_enabled (attributes old) self) = None \<Longrightarrow>
   snd (restore_start parse (attributes old) (fst (restore_enabled (attributes old) self))) = Some e \<Longrightarrow>
     async_added_to_hass parse (Some old) self =
       restore_start parse (attributes old) (fst (restore_enabled (attributes old) self))"
  by (simp add: run_Some and_then_Some and_then_None)

lemma run_to_end:
  "snd (restore_enabled (attributes old) self) = None \<Longrightarrow>
   snd (restore_start parse (attributes old) (fst (restore_enabled (attributes old) self))) = None \<Longrightarrow>
     async_added_to_hass parse (Some old) self =
       restore_end parse (attributes old)
         (fst (restore_start parse (attributes old) (fst (restore_enabled (attributes old) self))))"
  by (simp add: run_Some and_then_None)

lemma run_ok:
  assumes "snd (async_added_to_hass parse (Some old) self) = None"
  shows "snd (restore_enabled (attributes old) self) = None"
    and "snd (restore_start parse (attributes old) (fst (restore_enabled (attributes old) self))) = None"
    and "snd (restore_end parse (attributes old)
           (fst (restore_start parse (attributes old) (fst (restore_enabled (attributes old) self))))) = None"
proof -
  from assms have *: "snd (and_then (restore_enabled (attributes old) self)
        (restore_start parse (attributes old))) = None"
    and **: "snd (restore_end parse (attributes old)
        (fst (and_then (restore_enabled (attributes old) self)
           (restore_start parse (attributes old))))) = None"
    using and_then_ok [of "and_then (restore_enabled (attributes old) self)
        (restore_start parse (attributes old))" "restore_end parse (attributes old)"]
    by (simp_all add: run_Some)
  from * show e1: "snd (restore_enabled (attributes old) self) = None"
    using and_then_ok by blast
  from * show "snd (restore_start parse (attributes old)
      (fst (restore_enabled (attributes old) self))) = None"
    using and_then_ok by blast
  from ** e1 show "snd (restore_end parse (attributes old)
           (fst (restore_start parse (attributes old) (fst (restore_enabled (attributes old) self))))) = None"
    by (simp add: and_then_None)
qed

section \<open>Restoring: configuration before snapshot\<close>

lemma init_fields:
  "config (init cfg) = cfg"
  "p_enabled (init cfg) = (case conf_enabled cfg of None \<Rightarrow> False | Some b \<Rightarrow> b)"
  "p_start (init cfg) = (case conf_start cfg of None \<Rightarrow> time_default | Some t \<Rightarrow> t)"
  "p_end (init cfg) = (case conf_end cfg of None \<Rightarrow> time_default | Some t \<Rightarrow> t)"
  by (simp_all add: init_def)

lemma run_fields:
  assumes "snd (async_added_to_hass parse (Some old) self) = None"
  shows "case conf_enabled (config self) of
           None \<Rightarrow> attr_enabled (attributes old) =
             Some (p_enabled (fst (async_added_to_hass parse (Some old) self)))
         | Some b \<Rightarrow> p_enabled (fst (async_added_to_hass parse (Some old) self)) = p_enabled self"
    and "case conf_start (config self) of
           None \<Rightarrow> (\<exists>x. attr_start (attributes old) = Some x \<and>
             parse x = Inr (p_start (fst (async_added_to_hass parse (Some old) self))))
         | Some t \<Rightarrow> p_start (fst (async_added_to_hass parse (Some old) self)) = p_start self"
    and "case conf_end (config self) of
           None \<Rightarrow> (\<exists>x. attr_end (attributes old) = Some x \<and>
             parse x = Inr (p_end (fst (async_added_to_hass parse (Some old) self))))
         | Some t \<Rightarrow> p_end (fst (async_added_to_hass parse (Some old) self)) = p_end self"
proof -
  let ?a = "attributes old"
  let ?s1 = "fst (restore_enabled ?a self)"
  let ?s2 = "fst (restore_start parse ?a ?s1)"
  let ?r = "async_added_to_hass parse (Some old) self"
  note ok = run_ok [OF assms]
  have run: "?r = restore_end parse ?a ?s2"
    using ok(1,2) by (rule run_to_end)
  have c1: "config ?s1 = config self" and c2: "config ?s2 = config self"
    by (simp_all add: restore_step_config)
  have pe: "p_enabled (fst ?r) = p_enabled ?s1"
    by (simp add: run restore_step_frame)
  have ps: "p_start (fst ?r) = p_start ?s2"
    by (simp add: run restore_step_frame)
  have ps1: "p_start ?s1 = p_start self"
    by (simp add: restore_step_frame)
  have pe2: "p_end ?s2 = p_end self"
    by (simp add: restore_step_frame)
  from restore_enabled_ok [OF ok(1)]
  show "case conf_enabled (config self) of
           None \<Rightarrow> attr_enabled ?a = Some (p_enabled (fst ?r))
         | Some b \<Rightarrow> p_enabled (fst ?r) = p_enabled self"
    unfolding pe .
  from restore_start_ok [OF ok(2)]
  show "case conf_start (config self) of
           None \<Rightarrow> (\<exists>x. attr_start ?a = Some x \<and> parse x = Inr (p_start (fst ?r)))
         | Some t \<Rightarrow> p_start (fst ?r) = p_start self"
    unfolding ps c1 ps1 .
  from restore_end_ok [OF ok(3)]
  show "case conf_end (config self) of
           None \<Rightarrow> (\<exists>x. attr_end ?a = Some x \<and> parse x = Inr (p_end (fst ?r)))
         | Some t \<Rightarrow> p_end (fst ?r) = p_end self"
    unfolding run c2 pe2 .
qed

text \<open>The fields after a restore that returns, and when it does return.\<close>

lemma restore_returned:
  "async_added_to_hass parse None self = (self, None) \<and>
   (snd (async_added_to_hass parse (Some old) (init cfg)) = None \<longrightarrow>
      (case conf_enabled cfg of
         None \<Rightarrow> attr_enabled (attributes old) =
           Some (p_enabled (fst (async_added_to_hass parse (Some old) (init cfg))))
       | Some b \<Rightarrow> p_enabled (fst (async_added_to_hass parse (Some old) (init cfg))) = b) \<and>
      (case conf_start cfg of
         None \<Rightarrow> (\<exists>x. attr_start (attributes old) = Some x \<and>
           parse x = Inr (p_start (fst (async_added_to_hass parse (Some old) (init cfg)))))
       | Some t \<Rightarrow> p_start (fst (async_added_to_hass parse (Some old) (init cfg))) = t) \<and>
      (case conf_end cfg of
         None \<Rightarrow> (\<exists>x. attr_end (attributes old) = Some x \<and>
           parse x = Inr (p_end (fst (async_added_to_hass parse (Some old) (init cfg)))))
       | Some t \<Rightarrow> p_end (fst (async_added_to_hass parse (Some old) (init cfg))) = t)) \<and>
   ((conf_enabled cfg = None \<longrightarrow> attr_enabled (attributes old) \<noteq> None) \<and>
    (conf_start cfg = None \<longrightarrow>
       (\<exists>x t. attr_start (attributes old) = Some x \<and> parse x = Inr t)) \<and>
    (conf_end cfg = None \<longrightarrow>
       (\<exists>x t. attr_end (attributes old) = Some x \<and> parse x = Inr t)) \<longrightarrow>
    snd (async_added_to_hass parse (Some old) (init cfg)) = None)"
proof (intro conjI impI)
  show "async_added_to_hass parse None self = (self, None)"
    by (simp add: async_added_to_hass_def)
next
  assume ok: "snd (async_added_to_hass parse (Some old) (init cfg)) = None"
  from run_fields(1) [OF ok]
  show "case conf_enabled cfg of
         None \<Rightarrow> attr_enabled (attributes old) =
           Some (p_enabled (fst (async_added_to_hass parse (Some old) (init cfg))))
       | Some b \<Rightarrow> p_enabled (fst (async_added_to_hass parse (Some old) (init cfg))) = b"
    by (simp add: init_fields split: option.splits)
  from run_fields(2) [OF ok]
  show "case conf_start cfg of
         None \<Rightarrow> (\<exists>x. attr_start (attributes old) = Some x \<and>
           parse x = Inr (p_start (fst (async_added_to_hass parse (Some old) (init cfg)))))
       | Some t \<Rightarrow> p_start (fst (async_added_to_hass parse (Some old) (init cfg))) = t"
    by (simp add: init_fields split: option.splits)
  from run_fields(3) [OF ok]
  show "case conf_end cfg of
         None \<Rightarrow> (\<exists>x. attr_end (attributes old) = Some x \<and>
           parse x = Inr (p_end (fst (async_added_to_hass parse (Some old) (init cfg)))))
       | Some t \<Rightarrow> p_end (fst (async_added_to_hass parse (Some old) (init cfg))) = t"
    by (simp add: init_fields split: option.splits)
next
  assume pre: "(conf_enabled cfg = None \<longrightarrow> attr_enabled (attributes old) \<noteq> None) \<and>
    (conf_start cfg = None \<longrightarrow>
       (\<exists>x t. attr_start (attributes old) = Some x \<and> parse x = Inr t)) \<and>
    (conf_end cfg = None \<longrightarrow>
       (\<exists>x t. attr_end (attributes old) = Some x \<and> parse x = Inr t))"
  let ?a = "attributes old"
  let ?s1 = "fst (restore_enabled ?a (init cfg))"
  let ?s2 = "fst (restore_start parse ?a ?s1)"
  have e1: "snd (restore_enabled ?a (init cfg)) = None"
    using pre by (intro restore_enabled_total) (simp add: init_fields)
  have e2: "snd (restore_start parse ?a ?s1) = None"
    using pre by (intro restore_start_total) (simp add: restore_step_config init_fields)
  have e3: "snd (restore_end parse ?a ?s2) = None"
    using pre by (intro restore_end_total) (simp add: restore_step_config init_fields)
  show "snd (async_added_to_hass parse (Some old) (init cfg)) = None"
    using e3 by (simp add: run_to_end [OF e1 e2])
qed

lemma restore_enabled_value:
  "conf_enabled (config s) = None \<Longrightarrow> attr_enabled a = Some b \<Longrightarrow>
     restore_enabled a s = (s\<lparr>p_enabled := b\<rparr>, None)"
  by (simp add: restore_enabled_def)

lemma restore_start_value:
  "conf_start (config s) = None \<Longrightarrow> attr_start a = Some x \<Longrightarrow> parse x = Inr t \<Longrightarrow>
     restore_start parse a s = (s\<lparr>p_start := t\<rparr>, None)"
  by (simp add: restore_start_def)

lemma restore_end_value:
  "conf_end (config s) = None \<Longrightarrow> attr_end a = Some x \<Longrightarrow> parse x = Inr t \<Longrightarrow>
     restore_end parse a s = (s\<lparr>p_end := t\<rparr>, None)"
  by (simp add: restore_end_def)

lemma restore_enabled_configured:
  "conf_enabled (config s) \<noteq> None \<Longrightarrow> restore_enabled a s = (s, None)"
  by (auto simp add: restore_enabled_def)

text \<open>Where the run stops, the fields of the steps not reached are as they were.\<close>

lemma run_enabled_field:
  "p_enabled (fst (async_added_to_hass parse (Some old) self)) =
     p_enabled (fst (restore_enabled (attributes old) self))"
proof (cases "snd (restore_enabled (attributes old) self)")
  case (Some e)
  then show ?thesis by (simp add: run_stop_enabled)
next
  case e1: None
  show ?thesis
  proof (cases "snd (restore_start parse (attributes old)
      (fst (restore_enabled (attributes old) self)))")
    case (Some e)
    with e1 show ?thesis by (simp add: run_stop_start restore_step_frame)
  next
    case None
    with e1 show ?thesis by (simp add: run_to_end restore_step_frame)
  qed
qed

lemma run_start_field:
  "p_start (fst (async_added_to_hass parse (Some old) self)) =
     (if snd (restore_enabled (attributes old) self) = None
      then p_start (fst (restore_start parse (attributes old)
             (fst (restore_enabled (attributes old) self))))
      else p_start self)"
proof (cases "snd (restore_enabled (attributes old) self)")
  case (Some e)
  then show ?thesis by (simp add: run_stop_enabled restore_step_frame)
next
  case e1: None
  show ?thesis
  proof (cases "snd (restore_start parse (attributes old)
      (fst (restore_enabled (attributes old) self)))")
    case (Some e)
    with e1 show ?thesis by (simp add: run_stop_start)
  next
    case None
    with e1 show ?thesis by (simp add: run_to_end restore_step_frame)
  qed
qed

lemma run_end_field:
  "p_end (fst (async_added_to_hass parse (Some old) self)) =
     (if snd (restore_enabled (attributes old) self) = None \<and>
         snd (restore_start parse (attributes old)
           (fst (restore_enabled (attributes old) self))) = None
      then p_end (fst (restore_end parse (attributes old)
             (fst (restore_start parse (attributes old)
                (fst (restore_enabled (attributes old) self))))))
      else p_end self)"
proof (cases "snd (restore_enabled (attributes old) self)")
  case (Some e)
  then show ?thesis by (simp add: run_stop_enabled restore_step_frame)
next
  case e1: None
  show ?thesis
  proof (cases "snd (restore_start parse (attributes old)
      (fst (restore_enabled (attributes old) self)))")
    case (Some e)
    with e1 show ?thesis by (simp add: run_stop_start restore_step_frame)
  next
    case None
    with e1 show ?thesis by (simp add: run_to_end)
  qed
qed

text \<open>
  C3, as claimed: for each of enabled, start and end independently, a field that the
  configuration leaves out has, after the restore, the snapshot's value. The three
  assignments run in order and the first exception ends them: with no configuration, a
  start text that does not parse and the end text 06:00:00, the end is still the
  constructed 00:00:00 after the restore.
\<close>

theorem restore_end_left_at_default:
  "conf_end bare_config = None \<and>
   attr_end (attributes (snapshot (Some True) (Some ''noon'') (Some ''06:00:00''))) =
     Some ''06:00:00'' \<and>
   fromisoformat ''06:00:00'' = Inr (hms 6 0 0) \<and>
   p_end (fst (async_added_to_hass fromisoformat
          (Some (snapshot (Some True) (Some ''noon'') (Some ''06:00:00'')))
          (init bare_config))) = time_default \<and>
   time_default \<noteq> hms 6 0 0"
proof -
  let ?a = "attributes (snapshot (Some True) (Some ''noon'') (Some ''06:00:00''))"
  let ?s1 = "fst (restore_enabled ?a (init bare_config))"
  have "restore_start fromisoformat ?a ?s1 = (?s1, Some (ValueError ''noon''))"
    by (rule restore_start_malformed [where x = "''noon''"])
      (simp_all add: restore_step_config init_fields sample_configs snapshot_attributes
        fromisoformat_samples del: fromisoformat.simps)
  then have "p_end (fst (async_added_to_hass fromisoformat
          (Some (snapshot (Some True) (Some ''noon'') (Some ''06:00:00'')))
          (init bare_config))) = time_default"
    by (simp add: run_end_field init_fields sample_configs)
  then show ?thesis
    by (simp add: sample_configs snapshot_attributes fromisoformat_samples time_default_def
        hms_def del: fromisoformat.simps)
qed

text \<open>
  C3, amended. Without a snapshot the entity is left as constructed. With a snapshot,
  for each of enabled, start and end: a field that the configuration specifies has the
  configured value after the restore, whatever the snapshot holds and whether the
  restore returns or raises; a field that the configuration leaves out has the
  snapshot's value (a time parsed from its text) once the statements before it, in the
  order enabled, start, end, have not raised and its own attribute is present and
  parses. So after a restore that returns, every field the configuration leaves out has
  the snapshot's value; and the restore returns when the snapshot holds, for each such
  field, a value that parses.
\<close>

theorem restore_precedence:
  "async_added_to_hass parse None self = (self, None) \<and>
   (conf_enabled cfg = Some b \<longrightarrow>
      p_enabled (fst (async_added_to_hass parse (Some old) (init cfg))) = b) \<and>
   (conf_start cfg = Some t \<longrightarrow>
      p_start (fst (async_added_to_hass parse (Some old) (init cfg))) = t) \<and>
   (conf_end cfg = Some t \<longrightarrow>
      p_end (fst (async_added_to_hass parse (Some old) (init cfg))) = t) \<and>
   (conf_enabled cfg = None \<and> attr_enabled (attributes old) = Some b \<longrightarrow>
      p_enabled (fst (async_added_to_hass parse (Some old) (init cfg))) = b) \<and>
   (conf_start cfg = None \<and>
    (conf_enabled cfg = None \<longrightarrow> attr_enabled (attributes old) \<noteq> None) \<and>
    attr_start (attributes old) = Some x \<and> parse x = Inr t \<longrightarrow>
      p_start (fst (async_added_to_hass parse (Some old) (init cfg))) = t) \<and>
   (conf_end cfg = None \<and>
    (conf_enabled cfg = None \<longrightarrow> attr_enabled (attributes old) \<noteq> None) \<and>
    (conf_start cfg = None \<longrightarrow>
       (\<exists>y u. attr_start (attributes old) = Some y \<and> parse y = Inr u)) \<and>
    attr_end (attributes old) = Some x \<and> parse x = Inr t \<longrightarrow>
      p_end (fst (async_added_to_hass parse (Some old) (init cfg))) = t) \<and>
   (snd (async_added_to_hass parse (Some old) (init cfg)) = None \<longrightarrow>
      (case conf_enabled cfg of
         None \<Rightarrow> attr_enabled (attributes old) =
           Some (p_enabled (fst (async_added_to_hass parse (Some old) (init cfg))))
       | Some b \<Rightarrow> p_enabled (fst (async_added_to_hass parse (Some old) (init cfg))) = b) \<and>
      (case conf_start cfg of
         None \<Rightarrow> (\<exists>x. attr_start (attributes old) = Some x \<and>
           parse x = Inr (p_start (fst (async_added_to_hass parse (Some old) (init cfg)))))
       | Some t \<Rightarrow> p_start (fst (async_added_to_hass parse (Some old) (init cfg))) = t) \<and>
      (case conf_end cfg of
         None \<Rightarrow> (\<exists>x. attr_end (attributes old) = Some x \<and>
           parse x = Inr (p_end (fst (async_added_to_hass parse (Some old) (init cfg)))))
       | Some t \<Rightarrow> p_end (fst (async_added_to_hass parse (Some old) (init cfg))) = t)) \<and>
   ((conf_enabled cfg = None \<longrightarrow> attr_enabled (attributes old) \<noteq> None) \<and>
    (conf_start cfg = None \<longrightarrow>
       (\<exists>x t. attr_start (attributes old) = Some x \<and> parse x = Inr t)) \<and>
    (conf_end cfg = None \<longrightarrow>
       (\<exists>x t. attr_end (attributes old) = Some x \<and> parse x = Inr t)) \<longrightarrow>
    snd (async_added_to_hass parse (Some old) (init cfg)) = None)"
proof -
  let ?a = "attributes old"
  let ?s0 = "init cfg"
  let ?s1 = "fst (restore_enabled ?a ?s0)"
  let ?s2 = "fst (restore_start parse ?a ?s1)"
  let ?r = "async_added_to_hass parse (Some old) ?s0"
  have c1: "config ?s1 = cfg" and c2: "config ?s2 = cfg"
    by (simp_all add: restore_step_config init_fields)
  have none: "async_added_to_hass parse None self = (self, None)"
    by (simp add: async_added_to_hass_def)
  have conf_enabled: "p_enabled (fst ?r) = b" if "conf_enabled cfg = Some b"
  proof -
    from that have "restore_enabled ?a ?s0 = (?s0, None)"
      by (intro restore_enabled_configured) (simp add: init_fields)
    with that show ?thesis
      by (simp add: run_enabled_field init_fields)
  qed
  have conf_start: "p_start (fst ?r) = t" if "conf_start cfg = Some t"
  proof -
    from that have "restore_start parse ?a ?s1 = (?s1, None)"
      by (intro restore_configured(1)) (simp add: c1)
    with that show ?thesis
      by (simp add: run_start_field restore_step_frame init_fields)
  qed
  have conf_end: "p_end (fst ?r) = t" if "conf_end cfg = Some t"
  proof -
    from that have "restore_end parse ?a ?s2 = (?s2, None)"
      by (intro restore_configured(2)) (simp add: c2)
    with that show ?thesis
      by (simp add: run_end_field restore_step_frame init_fields)
  qed
  have snap_enabled: "p_enabled (fst ?r) = b"
    if "conf_enabled cfg = None \<and> attr_enabled ?a = Some b"
  proof -
    from that have "restore_enabled ?a ?s0 = (?s0\<lparr>p_enabled := b\<rparr>, None)"
      by (intro restore_enabled_value) (simp_all add: init_fields)
    then show ?thesis
      by (simp add: run_enabled_field)
  qed
  have snap_start: "p_start (fst ?r) = t"
    if h: "conf_start cfg = None \<and> (conf_enabled cfg = None \<longrightarrow> attr_enabled ?a \<noteq> None) \<and>
      attr_start ?a = Some x \<and> parse x = Inr t"
  proof -
    from h have e1: "snd (restore_enabled ?a ?s0) = None"
      by (intro restore_enabled_total) (simp add: init_fields)
    from h have "restore_start parse ?a ?s1 = (?s1\<lparr>p_start := t\<rparr>, None)"
      by (intro restore_start_value [where x = x]) (simp_all add: c1)
    with e1 show ?thesis
      by (simp add: run_start_field)
  qed
  have snap_end: "p_end (fst ?r) = t"
    if h: "conf_end cfg = None \<and> (conf_enabled cfg = None \<longrightarrow> attr_enabled ?a \<noteq> None) \<and>
      (conf_start cfg = None \<longrightarrow> (\<exists>y u. attr_start ?a = Some y \<and> parse y = Inr u)) \<and>
      attr_end ?a = Some x \<and> parse x = Inr t"
  proof -
    from h have e1: "snd (restore_enabled ?a ?s0) = None"
      by (intro restore_enabled_total) (simp add: init_fields)
    from h have e2: "snd (restore_start parse ?a ?s1) = None"
      by (intro restore_start_total) (simp add: c1)
    from h have "restore_end parse ?a ?s2 = (?s2\<lparr>p_end := t\<rparr>, None)"
      by (intro restore_end_value [where x = x]) (simp_all add: c2)
    with e1 e2 show ?thesis
      by (simp add: run_end_field)
  qed
  note returned = restore_returned [of parse self old cfg]
  show ?thesis
    using none conf_enabled conf_start conf_end snap_enabled snap_start snap_end
      returned [THEN conjunct2]
    by blast
qed

theorem restore_precedence_witness:
  "snd (async_added_to_hass fromisoformat
          (Some (snapshot (Some False) (Some ''22:00:00'') (Some ''06:00:00'')))
          (init half_config)) = None \<and>
   p_enabled (fst (async_added_to_hass fromisoformat
          (Some (snapshot (Some False) (Some ''22:00:00'') (Some ''06:00:00'')))
          (init half_config))) = True \<and>
   p_start (fst (async_added_to_hass fromisoformat
          (Some (snapshot (Some False) (Some ''22:00:00'') (Some ''06:00:00'')))
          (init half_config))) = hms 22 0 0 \<and>
   p_end (fst (async_added_to_hass fromisoformat
          (Some (snapshot (Some False) (Some ''22:00:00'') (Some ''06:00:00'')))
          (init half_config))) = hms 6 0 0 \<and>
   p_enabled (fst (async_added_to_hass fromisoformat
          (Some (snapshot (Some False) (Some ''noon'') (Some ''06:00:00'')))
          (init half_config))) = True \<and>
   p_enabled (fst (async_added_to_hass fromisoformat
          (Some (snapshot (Some False) (Some ''22:00:00'') None))
          (init bare_config))) = False \<and>
   p_start (fst (async_added_to_hass fromisoformat
          (Some (snapshot (Some False) (Some ''22:00:00'') None))
          (init bare_config))) = hms 22 0 0 \<and>
   p_start (fst (async_added_to_hass fromisoformat
          (Some (snapshot (Some False) (Some ''noon'') (Some ''06:00:00'')))
          day_slot)) = hms 8 0 0 \<and>
   p_end (fst (async_added_to_hass fromisoformat
          (Some (snapshot (Some False) (Some ''noon'') (Some ''06:00:00'')))
          day_slot)) = hms 17 0 0"
proof -
  let ?full = "snapshot (Some False) (Some ''22:00:00'') (Some ''06:00:00'')"
  let ?bad_start = "snapshot (Some False) (Some ''noon'') (Some ''06:00:00'')"
  let ?no_end = "snapshot (Some False) (Some ''22:00:00'') None"
  let ?day = "slot_config ''day'' (Some True) (Some (hms 8 0 0)) (Some (hms 17 0 0))"
  note returning = restore_precedence [of fromisoformat "init half_config" half_config True
      ?full "hms 6 0 0" "''06:00:00''"]
  have ok: "snd (async_added_to_hass fromisoformat (Some ?full) (init half_config)) = None"
    by (rule returning [THEN conjunct2, THEN conjunct2, THEN conjunct2, THEN conjunct2,
          THEN conjunct2, THEN conjunct2, THEN conjunct2, THEN conjunct2, THEN mp])
      (simp add: sample_configs snapshot_attributes fromisoformat_samples
        del: fromisoformat.simps)
  from returning [THEN conjunct2, THEN conjunct2, THEN conjunct2, THEN conjunct2,
      THEN conjunct2, THEN conjunct2, THEN conjunct2, THEN conjunct1, THEN mp, OF ok]
  have full: "p_enabled (fst (async_added_to_hass fromisoformat (Some ?full)
        (init half_config))) = True"
    "p_start (fst (async_added_to_hass fromisoformat (Some ?full) (init half_config))) =
        hms 22 0 0"
    "p_end (fst (async_added_to_hass fromisoformat (Some ?full) (init half_config))) =
        hms 6 0 0"
    by (simp_all add: sample_configs snapshot_attributes fromisoformat_samples
        del: fromisoformat.simps)
  from restore_precedence [of fromisoformat "init half_config" half_config True ?bad_start]
  have raised: "p_enabled (fst (async_added_to_hass fromisoformat (Some ?bad_start)
        (init half_config))) = True"
    by (simp add: sample_configs)
  from restore_precedence [of fromisoformat "init bare_config" bare_config False ?no_end
      "hms 22 0 0" "''22:00:00''"]
  have before_raise: "p_enabled (fst (async_added_to_hass fromisoformat (Some ?no_end)
        (init bare_config))) = False"
    "p_start (fst (async_added_to_hass fromisoformat (Some ?no_end) (init bare_config))) =
        hms 22 0 0"
    by (simp_all add: sample_configs snapshot_attributes fromisoformat_samples
        del: fromisoformat.simps)
  from restore_precedence [of fromisoformat "init ?day" ?day True ?bad_start "hms 8 0 0"]
    restore_precedence [of fromisoformat "init ?day" ?day True ?bad_start "hms 17 0 0"]
  have configured: "p_start (fst (async_added_to_hass fromisoformat (Some ?bad_start)
        day_slot)) = hms 8 0 0"
    "p_end (fst (async_added_to_hass fromisoformat (Some ?bad_start) day_slot)) = hms 17 0 0"
    by (simp_all add: day_slot_def slot_config_def)
  from ok full raised before_raise configured show ?thesis
    by simp
qed

section \<open>Restoring: text that does not parse\<close>

lemma enabled_step_passes:
  "(conf_enabled (config self) = None \<longrightarrow> attr_enabled a \<noteq> None) \<Longrightarrow>
     snd (restore_enabled a self) = None \<and> config (fst (restore_enabled a self)) = config self"
  by (simp add: restore_enabled_total restore_step_config)

text \<open>
  C5, as claimed: malformed time text in the configuration or in the snapshot never
  makes loading raise; the field falls back to 00:00:00 with a warning. The restore has
  no handler around the parser: with the start text 25:00:00 in the snapshot and no start
  in the configuration, the parser's error leaves \<open>async_added_to_hass\<close>.
\<close>

theorem restore_malformed_raises:
  "snd (async_added_to_hass fromisoformat
          (Some (snapshot (Some True) (Some ''25:00:00'') (Some ''06:00:00'')))
          (init bare_config)) = Some (ValueError ''25:00:00'')"
proof -
  let ?a = "attributes (snapshot (Some True) (Some ''25:00:00'') (Some ''06:00:00''))"
  let ?s1 = "fst (restore_enabled ?a (init bare_config))"
  have e1: "snd (restore_enabled ?a (init bare_config)) = None"
    by (rule restore_enabled_total) (simp add: snapshot_attributes)
  have "restore_start fromisoformat ?a ?s1 = (?s1, Some (ValueError ''25:00:00''))"
    by (rule restore_start_malformed [where x = "''25:00:00''"])
      (simp_all add: restore_step_config init_fields sample_configs snapshot_attributes
        fromisoformat_samples del: fromisoformat.simps)
  then show ?thesis
    using run_stop_start [OF e1, of fromisoformat "ValueError ''25:00:00''"] by simp
qed

text \<open>
  C5, amended. The constructor parses no text: it takes the configured time values, or
  00:00:00 for an absent key. The restore parses the snapshot's text only for a time
  field that the configuration leaves out, and text that does not parse there raises the
  parser's error out of the restore once the lookups before it have succeeded; the field
  keeps the value it had (its constructed default) and the fields after it are not
  restored. When the configuration gives both times, no text is parsed at all.
\<close>

theorem restore_malformed_text:
  "p_start (init cfg) = (case conf_start cfg of None \<Rightarrow> time_default | Some t \<Rightarrow> t) \<and>
   p_end (init cfg) = (case conf_end cfg of None \<Rightarrow> time_default | Some t \<Rightarrow> t) \<and>
   (conf_start (config self) = None \<and>
    (conf_enabled (config self) = None \<longrightarrow> attr_enabled (attributes old) \<noteq> None) \<and>
    attr_start (attributes old) = Some x \<and> parse x = Inl e \<longrightarrow>
      snd (async_added_to_hass parse (Some old) self) = Some e \<and>
      p_start (fst (async_added_to_hass parse (Some old) self)) = p_start self \<and>
      p_end (fst (async_added_to_hass parse (Some old) self)) = p_end self) \<and>
   (conf_end (config self) = None \<and>
    (conf_enabled (config self) = None \<longrightarrow> attr_enabled (attributes old) \<noteq> None) \<and>
    (conf_start (config self) = None \<longrightarrow>
       (\<exists>y t. attr_start (attributes old) = Some y \<and> parse y = Inr t)) \<and>
    attr_end (attributes old) = Some x \<and> parse x = Inl e \<longrightarrow>
      snd (async_added_to_hass parse (Some old) self) = Some e \<and>
      p_end (fst (async_added_to_hass parse (Some old) self)) = p_end self) \<and>
   (conf_start (config self) \<noteq> None \<and> conf_end (config self) \<noteq> None \<longrightarrow>
      async_added_to_hass parse (Some old) self = restore_enabled (attributes old) self)"
proof (intro conjI impI)
  show "p_start (init cfg) = (case conf_start cfg of None \<Rightarrow> time_default | Some t \<Rightarrow> t)"
    and "p_end (init cfg) = (case conf_end cfg of None \<Rightarrow> time_default | Some t \<Rightarrow> t)"
    by (simp_all add: init_fields)
next
  let ?a = "attributes old"
  let ?s1 = "fst (restore_enabled ?a self)"
  let ?r = "async_added_to_hass parse (Some old) self"
  assume h: "conf_start (config self) = None \<and>
    (conf_enabled (config self) = None \<longrightarrow> attr_enabled ?a \<noteq> None) \<and>
    attr_start ?a = Some x \<and> parse x = Inl e"
  then have e1: "snd (restore_enabled ?a self) = None" and c1: "config ?s1 = config self"
    using enabled_step_passes [of self ?a] by simp_all
  have stop: "restore_start parse ?a ?s1 = (?s1, Some e)"
    by (rule restore_start_malformed [where x = x]) (simp_all add: c1 h)
  then have run: "?r = (?s1, Some e)"
    using run_stop_start [OF e1, of parse e] by simp
  show "snd ?r = Some e" "p_start (fst ?r) = p_start self" "p_end (fst ?r) = p_end self"
    by (simp_all add: run restore_step_frame)
next
  let ?a = "attributes old"
  let ?s1 = "fst (restore_enabled ?a self)"
  let ?s2 = "fst (restore_start parse ?a ?s1)"
  let ?r = "async_added_to_hass parse (Some old) self"
  assume h: "conf_end (config self) = None \<and>
    (conf_enabled (config self) = None \<longrightarrow> attr_enabled ?a \<noteq> None) \<and>
    (conf_start (config self) = None \<longrightarrow> (\<exists>y t. attr_start ?a = Some y \<and> parse y = Inr t)) \<and>
    attr_end ?a = Some x \<and> parse x = Inl e"
  then have e1: "snd (restore_enabled ?a self) = None" and c1: "config ?s1 = config self"
    using enabled_step_passes [of self ?a] by simp_all
  have e2: "snd (restore_start parse ?a ?s1) = None"
    using h by (intro restore_start_total) (simp add: c1)
  have c2: "config ?s2 = config self"
    by (simp add: restore_step_config)
  have stop: "restore_end parse ?a ?s2 = (?s2, Some e)"
    by (rule restore_end_malformed [where x = x]) (simp_all add: c2 h)
  then have run: "?r = (?s2, Some e)"
    by (simp add: run_to_end [OF e1 e2])
  show "snd ?r = Some e" "p_end (fst ?r) = p_end self"
    by (simp_all add: run restore_step_frame)
next
  let ?a = "attributes old"
  let ?s1 = "fst (restore_enabled ?a self)"
  assume h: "conf_start (config self) \<noteq> None \<and> conf_end (config self) \<noteq> None"
  have c1: "config ?s1 = config self"
    by (simp add: restore_step_config)
  have st: "restore_start parse ?a ?s1 = (?s1, None)"
    by (rule restore_configured(1)) (simp add: c1 h)
  have en: "restore_end parse ?a ?s1 = (?s1, None)"
    by (rule restore_configured(2)) (simp add: c1 h)
  show "async_added_to_hass parse (Some old) self = restore_enabled ?a self"
  proof (cases "snd (restore_enabled ?a self)")
    case None
    then show ?thesis
      using st en by (simp add: run_Some and_then_def prod_eq_iff)
  next
    case (Some err)
    then show ?thesis by (rule run_stop_enabled)
  qed
qed

theorem restore_malformed_text_witness:
  "snd (async_added_to_hass fromisoformat
          (Some (snapshot (Some True) (Some ''noon'') (Some ''06:00:00'')))
          (init bare_config)) = Some (ValueError ''noon'') \<and>
   p_start (fst (async_added_to_hass fromisoformat
          (Some (snapshot (Some True) (Some ''noon'') (Some ''06:00:00'')))
          (init bare_config))) = time_default \<and>
   snd (async_added_to_hass fromisoformat
          (Some (snapshot (Some True) (Some ''22:00:00'') (Some ''6 am'')))
          (init bare_config)) = Some (ValueError ''6 am'') \<and>
   async_added_to_hass fromisoformat
          (Some (snapshot (Some True) (Some ''noon'') (Some ''6 am''))) day_slot =
     (day_slot, None)"
proof -
  let ?bad_start = "snapshot (Some True) (Some ''noon'') (Some ''06:00:00'')"
  let ?bad_end = "snapshot (Some True) (Some ''22:00:00'') (Some ''6 am'')"
  let ?bad_both = "snapshot (Some True) (Some ''noon'') (Some ''6 am'')"
  have conf: "config day_slot =
      slot_config ''day'' (Some True) (Some (hms 8 0 0)) (Some (hms 17 0 0))"
    by (simp add: day_slot_def init_fields)
  from restore_malformed_text [of bare_config "init bare_config" ?bad_start "''noon''"
      fromisoformat "ValueError ''noon''"]
  have "snd (async_added_to_hass fromisoformat (Some ?bad_start) (init bare_config)) =
      Some (ValueError ''noon'')"
    and "p_start (fst (async_added_to_hass fromisoformat (Some ?bad_start) (init bare_config))) =
      time_default"
    by (simp_all add: init_fields sample_configs snapshot_attributes fromisoformat_samples
        del: fromisoformat.simps)
  moreover
  from restore_malformed_text [of bare_config "init bare_config" ?bad_end "''6 am''"
      fromisoformat "ValueError ''6 am''"]
  have "snd (async_added_to_hass fromisoformat (Some ?bad_end) (init bare_config)) =
      Some (ValueError ''6 am'')"
    by (simp add: init_fields sample_configs snapshot_attributes fromisoformat_samples
        del: fromisoformat.simps)
  moreover
  from restore_malformed_text [of bare_config day_slot ?bad_both "''noon''"
      fromisoformat "ValueError ''noon''"]
  have "async_added_to_hass fromisoformat (Some ?bad_both) day_slot = (day_slot, None)"
    by (simp add: conf slot_config_def restore_enabled_def)
  ultimately show ?thesis by simp
qed

section \<open>Restoring: missing attributes\<close>

text \<open>
  C9, as claimed: a snapshot that lacks the attribute of a field the configuration leaves
  out makes the restore raise a lookup error. The statements run in order, so an earlier
  failure wins: with start text that does not parse and no end attribute, the error
  raised is the parser's, not a lookup error.
\<close>

theorem restore_missing_after_malformed:
  "attr_end (attributes (snapshot (Some True) (Some ''noon'') None)) = None \<and>
   conf_end (config (init bare_config)) = None \<and>
   snd (async_added_to_hass fromisoformat (Some (snapshot (Some True) (Some ''noon'') None))
          (init bare_config)) = Some (ValueError ''noon'')"
proof -
  let ?a = "attributes (snapshot (Some True) (Some ''noon'') None)"
  let ?s1 = "fst (restore_enabled ?a (init bare_config))"
  have e1: "snd (restore_enabled ?a (init bare_config)) = None"
    by (rule restore_enabled_total) (simp add: snapshot_attributes)
  have "restore_start fromisoformat ?a ?s1 = (?s1, Some (ValueError ''noon''))"
    by (rule restore_start_malformed [where x = "''noon''"])
      (simp_all add: restore_step_config init_fields sample_configs snapshot_attributes
        fromisoformat_samples del: fromisoformat.simps)
  then have "snd (async_added_to_hass fromisoformat
      (Some (snapshot (Some True) (Some ''noon'') None)) (init bare_config)) =
      Some (ValueError ''noon'')"
    using run_stop_start [OF e1, of fromisoformat "ValueError ''noon''"] by simp
  then show ?thesis
    by (simp add: snapshot_attributes init_fields sample_configs)
qed

text \<open>
  C9, amended. The lookups are unguarded. A restore that returns has found, in the
  snapshot, the attribute of every field the configuration leaves out. A missing
  attribute of such a field raises KeyError for that key, instead of leaving the default
  in place silently, provided the statements before it returned: enabled first, then
  start (when enabled is configured or present), then end (when moreover start is
  configured or present with text that parses). The field keeps its earlier value.
\<close>

theorem restore_missing_attribute:
  "(snd (async_added_to_hass parse (Some old) self) = None \<longrightarrow>
      (conf_enabled (config self) = None \<longrightarrow> attr_enabled (attributes old) \<noteq> None) \<and>
      (conf_start (config self) = None \<longrightarrow> attr_start (attributes old) \<noteq> None) \<and>
      (conf_end (config self) = None \<longrightarrow> attr_end (attributes old) \<noteq> None)) \<and>
   (conf_enabled (config self) = None \<and> attr_enabled (attributes old) = None \<longrightarrow>
      async_added_to_hass parse (Some old) self = (self, Some (KeyError ATTR_ENABLED))) \<and>
   (conf_start (config self) = None \<and> attr_start (attributes old) = None \<and>
    (conf_enabled (config self) = None \<longrightarrow> attr_enabled (attributes old) \<noteq> None) \<longrightarrow>
      snd (async_added_to_hass parse (Some old) self) = Some (KeyError ATTR_START) \<and>
      p_start (fst (async_added_to_hass parse (Some old) self)) = p_start self) \<and>
   (conf_end (config self) = None \<and> attr_end (attributes old) = None \<and>
    (conf_enabled (config self) = None \<longrightarrow> attr_enabled (attributes old) \<noteq> None) \<and>
    (conf_start (config self) = None \<longrightarrow>
       (\<exists>y t. attr_start (attributes old) = Some y \<and> parse y = Inr t)) \<longrightarrow>
      snd (async_added_to_hass parse (Some old) self) = Some (KeyError ATTR_END) \<and>
      p_end (fst (async_added_to_hass parse (Some old) self)) = p_end self)"
proof (intro conjI impI)
  assume ok: "snd (async_added_to_hass parse (Some old) self) = None"
  {
    assume "conf_enabled (config self) = None"
    with run_fields(1) [OF ok] show "attr_enabled (attributes old) \<noteq> None" by simp
  }
  {
    assume "conf_start (config self) = None"
    with run_fields(2) [OF ok] show "attr_start (attributes old) \<noteq> None" by auto
  }
  {
    assume "conf_end (config self) = None"
    with run_fields(3) [OF ok] show "attr_end (attributes old) \<noteq> None" by auto
  }
next
  assume h: "conf_enabled (config self) = None \<and> attr_enabled (attributes old) = None"
  then have stop: "restore_enabled (attributes old) self = (self, Some (KeyError ATTR_ENABLED))"
    by (simp add: restore_enabled_missing)
  then show "async_added_to_hass parse (Some old) self = (self, Some (KeyError ATTR_ENABLED))"
    using run_stop_enabled [of old self "KeyError ATTR_ENABLED" parse] by simp
next
  let ?a = "attributes old"
  let ?s1 = "fst (restore_enabled ?a self)"
  let ?r = "async_added_to_hass parse (Some old) self"
  assume h: "conf_start (config self) = None \<and> attr_start ?a = None \<and>
    (conf_enabled (config self) = None \<longrightarrow> attr_enabled ?a \<noteq> None)"
  then have e1: "snd (restore_enabled ?a self) = None" and c1: "config ?s1 = config self"
    using enabled_step_passes [of self ?a] by simp_all
  have stop: "restore_start parse ?a ?s1 = (?s1, Some (KeyError ATTR_START))"
    by (rule restore_start_missing) (simp_all add: c1 h)
  then have run: "?r = (?s1, Some (KeyError ATTR_START))"
    using run_stop_start [OF e1, of parse "KeyError ATTR_START"] by simp
  show "snd ?r = Some (KeyError ATTR_START)" "p_start (fst ?r) = p_start self"
    by (simp_all add: run restore_step_frame)
next
  let ?a = "attributes old"
  let ?s1 = "fst (restore_enabled ?a self)"
  let ?s2 = "fst (restore_start parse ?a ?s1)"
  let ?r = "async_added_to_hass parse (Some old) self"
  assume h: "conf_end (config self) = None \<and> attr_end ?a = None \<and>
    (conf_enabled (config self) = None \<longrightarrow> attr_enabled ?a \<noteq> None) \<and>
    (conf_start (config self) = None \<longrightarrow> (\<exists>y t. attr_start ?a = Some y \<and> parse y = Inr t))"
  then have e1: "snd (restore_enabled ?a self) = None" and c1: "config ?s1 = config self"
    using enabled_step_passes [of self ?a] by simp_all
  have e2: "snd (restore_start parse ?a ?s1) = None"
    using h by (intro restore_start_total) (simp add: c1)
  have c2: "config ?s2 = config self"
    by (simp add: restore_step_config)
  have stop: "restore_end parse ?a ?s2 = (?s2, Some (KeyError ATTR_END))"
    by (rule restore_end_missing) (simp_all add: c2 h)
  then have run: "?r = (?s2, Some (KeyError ATTR_END))"
    by (simp add: run_to_end [OF e1 e2])
  show "snd ?r = Some (KeyError ATTR_END)" "p_end (fst ?r) = p_end self"
    by (simp_all add: run restore_step_frame)
qed

theorem restore_missing_attribute_witness:
  "async_added_to_hass fromisoformat
     (Some (snapshot None (Some ''22:00:00'') (Some ''06:00:00''))) (init bare_config) =
     (init bare_config, Some (KeyError ''enabled'')) \<and>
   snd (async_added_to_hass fromisoformat
     (Some (snapshot (Some True) None (Some ''06:00:00''))) (init bare_config)) =
     Some (KeyError ''start'') \<and>
   snd (async_added_to_hass fromisoformat
     (Some (snapshot (Some True) (Some ''22:00:00'') None)) (init bare_config)) =
     Some (KeyError ''end'') \<and>
   snd (async_added_to_hass fromisoformat
     (Some (snapshot (Some True) (Some ''22:00:00'') None)) night_slot) = None"
proof -
  have conf: "config night_slot =
      slot_config ''night'' (Some True) (Some (hms 22 0 0)) (Some (hms 6 0 0))"
    by (simp add: night_slot_def init_fields)
  from restore_missing_attribute [of fromisoformat
      "snapshot None (Some ''22:00:00'') (Some ''06:00:00'')" "init bare_config"]
  have "async_added_to_hass fromisoformat
     (Some (snapshot None (Some ''22:00:00'') (Some ''06:00:00''))) (init bare_config) =
     (init bare_config, Some (KeyError ''enabled''))"
    by (simp add: init_fields sample_configs snapshot_attributes ATTR_ENABLED_def
        del: fromisoformat.simps)
  moreover
  from restore_missing_attribute [of fromisoformat
      "snapshot (Some True) None (Some ''06:00:00'')" "init bare_config"]
  have "snd (async_added_to_hass fromisoformat
     (Some (snapshot (Some True) None (Some ''06:00:00''))) (init bare_config)) =
     Some (KeyError ''start'')"
    by (simp add: init_fields sample_configs snapshot_attributes ATTR_START_def
        del: fromisoformat.simps)
  moreover
  from restore_missing_attribute [of fromisoformat
      "snapshot (Some True) (Some ''22:00:00'') None" "init bare_config"]
  have "snd (async_added_to_hass fromisoformat
     (Some (snapshot (Some True) (Some ''22:00:00'') None)) (init bare_config)) =
     Some (KeyError ''end'')"
    by (simp add: init_fields sample_configs snapshot_attributes ATTR_END_def
        fromisoformat_samples del: fromisoformat.simps)
  moreover
  from restore_missing_attribute [of fromisoformat
      "snapshot (Some True) (Some ''22:00:00'') None" night_slot]
  have "snd (async_added_to_hass fromisoformat
     (Some (snapshot (Some True) (Some ''22:00:00'') None)) night_slot) = None"
    by (simp add: run_Some and_then_def restore_enabled_def restore_start_def restore_end_def
        conf slot_config_def)
  ultimately show ?thesis by simp
qed

section \<open>Restoring the entity's own publication\<close>

text \<open>
  The snapshot that the entity itself has published restores every field to the value
  it has, whatever the configuration specifies: the restore returns the entity unchanged.
\<close>

lemma restore_own_publication:
  assumes "valid_time (p_start self)" and "valid_time (p_end self)"
  shows "async_added_to_hass fromisoformat
           (Some \<lparr>state_str = state now self, attributes = extra_state_attributes self\<rparr>) self =
         (self, None)"
proof -
  let ?a = "extra_state_attributes self"
  have a: "attr_enabled ?a = Some (p_enabled self)"
    "attr_start ?a = Some (isoformat (p_start self))"
    "attr_end ?a = Some (isoformat (p_end self))"
    by (simp_all add: extra_state_attributes_def)
  have "restore_enabled ?a self = (self, None)"
    by (simp add: restore_enabled_def a)
  moreover have "restore_start fromisoformat ?a self = (self, None)"
    by (simp add: restore_start_def a fromisoformat_isoformat [OF assms(1)]
        del: fromisoformat.simps)
  moreover have "restore_end fromisoformat ?a self = (self, None)"
    by (simp add: restore_end_def a fromisoformat_isoformat [OF assms(2)]
        del: fromisoformat.simps)
  ultimately show ?thesis
    by (simp add: run_Some and_then_def)
qed

section \<open>Restoring twice\<close>

text \<open>
  C7. Restoring is idempotent: for every configuration and every snapshot, running the
  restore step again on the entity it left, with the same snapshot, leaves the same
  entity (so the same enabled, start and end fields) and the same outcome.
\<close>

theorem restore_idempotent:
  "async_added_to_hass parse old_state (fst (async_added_to_hass parse old_state self)) =
     async_added_to_hass parse old_state self"
proof (cases old_state)
  case None
  then show ?thesis by (simp add: async_added_to_hass_def)
next
  case (Some old)
  define a where "a = attributes old"
  define s1 where "s1 = fst (restore_enabled a self)"
  define s2 where "s2 = fst (restore_start parse a s1)"
  define s3 where "s3 = fst (restore_end parse a s2)"
  have run: "async_added_to_hass parse old_state x =
      and_then (and_then (restore_enabled a x) (restore_start parse a)) (restore_end parse a)" for x
    by (simp add: async_added_to_hass_def Some a_def)
  have r1: "restore_enabled a self = (s1, snd (restore_enabled a self))"
    by (simp add: s1_def)
  have r2: "restore_start parse a s1 = (s2, snd (restore_start parse a s1))"
    by (simp add: s2_def)
  have r3: "restore_end parse a s2 = (s3, snd (restore_end parse a s2))"
    by (simp add: s3_def)
  have c1: "config s1 = config self"
    by (simp add: s1_def restore_step_config)
  have c2: "config s2 = config s1"
    by (simp add: s2_def restore_step_config)
  have c3: "config s3 = config s2"
    by (simp add: s3_def restore_step_config)
  have q1: "p_enabled s1 = p_enabled (fst (restore_enabled a self))"
    by (simp add: s1_def)
  have q2: "p_start s2 = p_start (fst (restore_start parse a s1))"
    by (simp add: s2_def)
  have q3: "p_end s3 = p_end (fst (restore_end parse a s2))"
    by (simp add: s3_def)
  show ?thesis
  proof (cases "snd (restore_enabled a self)")
    case (Some e)
    then have "s1 = self"
      unfolding s1_def by (rule restore_step_raise(1))
    with r1 Some have "async_added_to_hass parse old_state self = (self, Some e)"
      by (simp add: run and_then_simps)
    then show ?thesis by simp
  next
    case e1: None
    have again1: "restore_enabled a s1 = (s1, snd (restore_enabled a self))"
      by (rule restore_enabled_again) (simp_all add: c1 q1)
    show ?thesis
    proof (cases "snd (restore_start parse a s1)")
      case (Some e)
      then have same: "s2 = s1"
        unfolding s2_def by (rule restore_step_raise(2))
      have "async_added_to_hass parse old_state self = (s1, Some e)"
        using r1 r2 e1 Some same by (simp add: run and_then_simps)
      moreover have "async_added_to_hass parse old_state s1 = (s1, Some e)"
        using again1 r2 e1 Some same by (simp add: run and_then_simps)
      ultimately show ?thesis by simp
    next
      case e2: None
      have first: "async_added_to_hass parse old_state self = (s3, snd (restore_end parse a s2))"
        using r1 r2 r3 e1 e2 by (simp add: run and_then_simps)
      have p1: "p_enabled s3 = p_enabled s1"
        by (simp add: s3_def s2_def restore_step_frame)
      have p2: "p_start s3 = p_start s2"
        by (simp add: s3_def restore_step_frame)
      have "restore_enabled a s3 = (s3, snd (restore_enabled a self))"
        by (rule restore_enabled_again) (simp_all add: c1 c2 c3 p1 q1)
      moreover have "restore_start parse a s3 = (s3, snd (restore_start parse a s1))"
        by (rule restore_start_again) (simp_all add: c2 c3 p2 q2)
      moreover have "restore_end parse a s3 = (s3, snd (restore_end parse a s2))"
        by (rule restore_end_again) (simp_all add: c3 q3)
      ultimately have "async_added_to_hass parse old_state s3 = (s3, snd (restore_end parse a s2))"
        using e1 e2 by (simp add: run and_then_simps)
      with first show ?thesis by simp
    qed
  qed
qed

end
